theory Spec2Isabelle
  imports Main "HOL-Library.Code_Target_Nat"
begin

section \<open>Binance futures trading bot: quantity formatting and order requests\<close>

text \<open>
  A shallow embedding of \<^verbatim>\<open>src/bot.py\<close> (class \<^verbatim>\<open>BasicBot\<close>). The exchange client is a
  record of response functions; every operation returns its result together with the list
  of client calls it made, so that "fails before any network call" is a statement about
  that list. Exceptions are values of a sum type. Logging is left out.

  Numbers. A Python \<^verbatim>\<open>float\<close> is modelled by the decimal number that its \<^verbatim>\<open>repr\<close>
  denotes, held as sign, coefficient and exponent like a \<^verbatim>\<open>decimal.Decimal\<close>. The string
  functions of the library (\<^verbatim>\<open>str\<close> of a float, \<^verbatim>\<open>float\<close> and \<^verbatim>\<open>Decimal\<close> of a string,
  \<^verbatim>\<open>quantize\<close>, the \<^verbatim>\<open>f\<close> format) are written out on that representation. The binary
  rounding of \<^verbatim>\<open>float\<close> is not modelled. For numbers of at most 15 significant digits a
  decimal survives the trip through a double, and the model gives Python's strings
  wherever the format prints all the digits of its argument. Where the format has to
  round, it rounds the decimal and Python rounds the double, so the two may part at a
  tie; no concrete run below has the format round. Infinities and NaN are left out.
\<close>

subsection \<open>Characters and digits\<close>

definition lower_letters :: string where
  "lower_letters = ''abcdefghijklmnopqrstuvwxyz''"

definition upper_letters :: string where
  "upper_letters = ''ABCDEFGHIJKLMNOPQRSTUVWXYZ''"

text \<open>\<^verbatim>\<open>str.upper\<close> on ASCII text.\<close>

definition upper_char :: "char \<Rightarrow> char" where
  "upper_char c = (case map_of (zip lower_letters upper_letters) c of
                     Some u \<Rightarrow> u | None \<Rightarrow> c)"

definition upper :: "string \<Rightarrow> string" where
  "upper s = map upper_char s"

definition digit_chars :: string where
  "digit_chars = ''0123456789''"

definition is_digit :: "char \<Rightarrow> bool" where
  "is_digit c = (c \<in> set digit_chars)"

definition digit_val :: "char \<Rightarrow> nat" where
  "digit_val c = (case map_of (zip digit_chars [0 ..< 10]) c of Some d \<Rightarrow> d | None \<Rightarrow> 0)"

definition digit_char :: "nat \<Rightarrow> char" where
  "digit_char d = digit_chars ! d"

text \<open>The decimal digits of a natural number, most significant first.\<close>

function digits :: "nat \<Rightarrow> string" where
  "digits n = (if n < 10 then [digit_char n]
               else digits (n div 10) @ [digit_char (n mod 10)])"
  by pat_completeness auto
termination
  by (relation "measure id") auto

declare digits.simps [simp del]

definition nat_of_digits :: "string \<Rightarrow> nat" where
  "nat_of_digits s = foldl (\<lambda>a c. 10 * a + digit_val c) 0 s"

text \<open>\<^verbatim>\<open>s.rstrip(c)\<close> for a single character \<^verbatim>\<open>c\<close>.\<close>

definition rstrip :: "char \<Rightarrow> string \<Rightarrow> string" where
  "rstrip c s = rev (dropWhile (\<lambda>x. x = c) (rev s))"

subsection \<open>Decimal numbers and their strings\<close>

text \<open>\<^verbatim>\<open>Decimal\<close>: the value is \<open>\<plusminus> coefficient * 10 ^ exponent\<close>.\<close>

datatype decimal = Decimal (negative: bool) (coefficient: nat) (exponent: int)

type_synonym pyfloat = decimal

datatype error =
    ValueError string
  | KeyError string
  | InvalidOperation
  | BinanceAPIException string

text \<open>
  Dropping the trailing zeros of a coefficient while raising the exponent: the shortest
  digit string of the value. Zero keeps its sign, as \<^verbatim>\<open>-0.0\<close> does.
\<close>

function strip_zeros :: "nat \<Rightarrow> int \<Rightarrow> nat \<times> int" where
  "strip_zeros c e = (if c = 0 then (0, 0)
                      else if c mod 10 = 0 then strip_zeros (c div 10) (e + 1)
                      else (c, e))"
  by pat_completeness auto
termination
  by (relation "measure fst") auto

declare strip_zeros.simps [simp del]

definition normalize :: "decimal \<Rightarrow> decimal" where
  "normalize d = (case strip_zeros (coefficient d) (exponent d) of
                    (c, e) \<Rightarrow> Decimal (negative d) c e)"

text \<open>\<^verbatim>\<open>float(d)\<close> for a \<^verbatim>\<open>Decimal\<close> \<^verbatim>\<open>d\<close>.\<close>

definition float_of_Decimal :: "decimal \<Rightarrow> pyfloat" where
  "float_of_Decimal d = normalize d"

text \<open>
  Splitting a string at the first character that satisfies \<open>p\<close>: the part before it and,
  when there is one, the part after it.
\<close>

definition split_first :: "(char \<Rightarrow> bool) \<Rightarrow> string \<Rightarrow> string \<times> string option" where
  "split_first p s = (takeWhile (\<lambda>x. \<not> p x) s,
                      case dropWhile (\<lambda>x. \<not> p x) s of [] \<Rightarrow> None | _ # r \<Rightarrow> Some r)"

definition is_digits :: "string \<Rightarrow> bool" where
  "is_digits s = (s \<noteq> [] \<and> list_all is_digit s)"

text \<open>A signed integer as in an exponent: an optional sign, then digits.\<close>

definition parse_int :: "string \<Rightarrow> int option" where
  "parse_int s =
     (case s of
        [] \<Rightarrow> None
      | c # r \<Rightarrow>
          if c = CHR ''-'' then (if is_digits r then Some (- int (nat_of_digits r)) else None)
          else if c = CHR ''+'' then (if is_digits r then Some (int (nat_of_digits r)) else None)
          else (if is_digits s then Some (int (nat_of_digits s)) else None))"

text \<open>
  \<^verbatim>\<open>Decimal(s)\<close> for a numeric string: optional sign, digits with an optional point, an
  optional exponent. \<open>None\<close> is the exception the constructor raises on anything else.
\<close>

definition Decimal_of_str :: "string \<Rightarrow> decimal option" where
  "Decimal_of_str s =
     (let neg = (s \<noteq> [] \<and> hd s = CHR ''-'');
          body = (if s \<noteq> [] \<and> (hd s = CHR ''-'' \<or> hd s = CHR ''+'') then tl s else s);
          (mant, ex) = split_first (\<lambda>x. x = CHR ''e'' \<or> x = CHR ''E'') body;
          (ip, fo) = split_first (\<lambda>x. x = CHR ''.'') mant;
          fp = (case fo of None \<Rightarrow> [] | Some f \<Rightarrow> f)
      in if \<not> is_digits (ip @ fp) then None
         else (case ex of
                 None \<Rightarrow> Some (Decimal neg (nat_of_digits (ip @ fp)) (- int (length fp)))
               | Some x \<Rightarrow>
                   (case parse_int x of
                      None \<Rightarrow> None
                    | Some k \<Rightarrow>
                        Some (Decimal neg (nat_of_digits (ip @ fp)) (k - int (length fp))))))"

text \<open>\<^verbatim>\<open>float(s)\<close> for a string: \<open>Inl\<close> is the \<^verbatim>\<open>ValueError\<close> of a non-numeric string.\<close>

definition float_of_str :: "string \<Rightarrow> error + pyfloat" where
  "float_of_str s = (case Decimal_of_str s of
                       None \<Rightarrow> Inl (ValueError ''could not convert string to float'')
                     | Some d \<Rightarrow> Inr (normalize d))"

text \<open>
  \<^verbatim>\<open>str(x)\<close> for a float \<^verbatim>\<open>x\<close>: the shortest digits, in positional notation when the
  decimal point falls within \<open>-4 < decpt \<le> 16\<close> and in exponent notation otherwise, always
  with a fractional part in positional notation and an exponent of at least two digits.
\<close>

definition pad2 :: "string \<Rightarrow> string" where
  "pad2 s = (if length s < 2 then CHR ''0'' # s else s)"

definition str_float :: "pyfloat \<Rightarrow> string" where
  "str_float x =
     (case strip_zeros (coefficient x) (exponent x) of
        (c, e) \<Rightarrow>
          let sg = (if negative x then ''-'' else []);
              ds = digits c;
              n = int (length ds);
              decpt = n + e
          in if c = 0 then sg @ ''0.0''
             else if - 4 < decpt \<and> decpt \<le> 16 then
               (if decpt \<le> 0 then sg @ ''0.'' @ replicate (nat (- decpt)) (CHR ''0'') @ ds
                else if n \<le> decpt then sg @ ds @ replicate (nat (decpt - n)) (CHR ''0'') @ ''.0''
                else sg @ take (nat decpt) ds @ ''.'' @ drop (nat decpt) ds)
             else sg @ [hd ds] @ (if 1 < n then ''.'' @ tl ds else '''')
                  @ ''e'' @ (if decpt - 1 < 0 then ''-'' else ''+'')
                  @ pad2 (digits (nat \<bar>decpt - 1\<bar>)))"

text \<open>
  \<^verbatim>\<open>d.quantize(q, rounding=ROUND_DOWN)\<close>: the digits of \<open>d\<close> at the exponent of \<open>q\<close>, cut off
  toward zero. Only the exponent of \<open>q\<close> is used. A result of more than 28 digits (the
  precision of the default context) raises \<^verbatim>\<open>InvalidOperation\<close>.
\<close>

definition quantize_down :: "decimal \<Rightarrow> decimal \<Rightarrow> error + decimal" where
  "quantize_down d q =
     (let c = (if exponent q \<le> exponent d
               then coefficient d * 10 ^ nat (exponent d - exponent q)
               else coefficient d div 10 ^ nat (exponent q - exponent d))
      in if 28 < length (digits c) then Inl InvalidOperation
         else Inr (Decimal (negative d) c (exponent q)))"

text \<open>The quotient \<open>c / m\<close> rounded to the nearest integer, a tie going to the even one.\<close>

definition round_half_even :: "nat \<Rightarrow> nat \<Rightarrow> nat" where
  "round_half_even c m =
     (let q = c div m; r = c mod m
      in if 2 * r < m then q
         else if m < 2 * r then q + 1
         else if even q then q else q + 1)"

text \<open>
  The format \<^verbatim>\<open>f"{x:.{p}f}"\<close>: \<open>x\<close> with exactly \<open>p\<close> fractional digits, rounded to nearest,
  at least one digit before the point, no point when \<open>p = 0\<close>.
\<close>

definition format_f :: "nat \<Rightarrow> pyfloat \<Rightarrow> string" where
  "format_f p x =
     (let k = exponent x + int p;
          n = (if 0 \<le> k then coefficient x * 10 ^ nat k
               else round_half_even (coefficient x) (10 ^ nat (- k)));
          ds = digits n;
          padded = replicate (Suc p - length ds) (CHR ''0'') @ ds;
          sg = (if negative x then ''-'' else [])
      in if p = 0 then sg @ padded
         else sg @ take (length padded - p) padded @ ''.'' @ drop (length padded - p) padded)"

text \<open>
  \<^verbatim>\<open>len(s.split('.')[-1]) if '.' in s else 0\<close>: the number of characters after the last
  point of \<open>s\<close>.
\<close>

definition precision_of :: "string \<Rightarrow> nat" where
  "precision_of s = (if CHR ''.'' \<in> set s
                     then length (takeWhile (\<lambda>x. x \<noteq> CHR ''.'') (rev s)) else 0)"

subsection \<open>Exchange data and the client\<close>

record filter_info =
  filterType :: string
  stepSize :: "string option"

record symbol_info =
  symbol :: string
  filters :: "filter_info list"

text \<open>The keyword arguments of \<^verbatim>\<open>futures_create_order\<close>; an absent keyword is \<open>None\<close>.\<close>

record order_request =
  req_symbol :: string
  req_side :: string
  req_type :: string
  req_quantity :: string
  req_price :: "string option"
  req_stopPrice :: "string option"
  req_timeInForce :: "string option"

record order_response =
  orderId :: int

datatype call =
    ExchangeInfo
  | SymbolTicker string
  | CreateOrder order_request
  | CancelOrder string int
  | GetOpenOrders "string option"

text \<open>
  The exchange client (\<^verbatim>\<open>binance.Client\<close>) is a collaborator: each method is a function
  from its arguments to an error or a response. The ticker response is its \<^verbatim>\<open>price\<close>
  field.
\<close>

record client =
  futures_exchange_info :: "error + symbol_info list"
  futures_symbol_ticker :: "string \<Rightarrow> error + string"
  futures_create_order :: "order_request \<Rightarrow> error + order_response"
  futures_cancel_order :: "string \<Rightarrow> int \<Rightarrow> error + order_response"
  futures_get_open_orders :: "string option \<Rightarrow> error + order_response list"

subsection \<open>Queries\<close>

definition get_symbol_info :: "client \<Rightarrow> string \<Rightarrow> (error + symbol_info) \<times> call list" where
  "get_symbol_info c smb =
     (case futures_exchange_info c of
        Inl e \<Rightarrow> (Inl e, [ExchangeInfo])
      | Inr syms \<Rightarrow>
          (case find (\<lambda>si. symbol si = upper smb) syms of
             Some si \<Rightarrow> (Inr si, [ExchangeInfo])
           | None \<Rightarrow> (Inl (ValueError (''Symbol '' @ smb @ '' not found'')), [ExchangeInfo])))"

definition get_current_price :: "client \<Rightarrow> string \<Rightarrow> (error + pyfloat) \<times> call list" where
  "get_current_price c smb =
     (case futures_symbol_ticker c (upper smb) of
        Inl e \<Rightarrow> (Inl e, [SymbolTicker (upper smb)])
      | Inr p \<Rightarrow> (float_of_str p, [SymbolTicker (upper smb)]))"

definition get_open_orders ::
  "client \<Rightarrow> string option \<Rightarrow> (error + order_response list) \<times> call list" where
  "get_open_orders c smb = (futures_get_open_orders c smb, [GetOpenOrders smb])"

definition cancel_order ::
  "client \<Rightarrow> string \<Rightarrow> int \<Rightarrow> (error + order_response) \<times> call list" where
  "cancel_order c smb order_id =
     (futures_cancel_order c (upper smb) order_id, [CancelOrder (upper smb) order_id])"

subsection \<open>The quantity formatter\<close>

text \<open>
  The body of the \<^verbatim>\<open>try\<close> block of \<^verbatim>\<open>format_quantity\<close>: \<open>Inl\<close> is an exception raised
  inside it. The step size goes through \<^verbatim>\<open>float\<close> and back through \<^verbatim>\<open>str\<close> before it is
  used, twice: for the precision and for the exponent handed to \<^verbatim>\<open>quantize\<close>.
\<close>

definition format_quantity_try :: "client \<Rightarrow> string \<Rightarrow> pyfloat \<Rightarrow> error + string" where
  "format_quantity_try c smb quantity =
     (case fst (get_symbol_info c smb) of
        Inl e \<Rightarrow> Inl e
      | Inr si \<Rightarrow>
          (case find (\<lambda>f. filterType f = ''LOT_SIZE'') (filters si) of
             None \<Rightarrow> Inr (str_float quantity)
           | Some lot_size_filter \<Rightarrow>
               (case stepSize lot_size_filter of
                  None \<Rightarrow> Inl (KeyError ''stepSize'')
                | Some st \<Rightarrow>
                    (case float_of_str st of
                       Inl e \<Rightarrow> Inl e
                     | Inr step_size \<Rightarrow>
                         (case (Decimal_of_str (str_float quantity),
                                Decimal_of_str (str_float step_size)) of
                            (Some dq, Some ds) \<Rightarrow>
                              (case quantize_down dq ds of
                                 Inl e \<Rightarrow> Inl e
                               | Inr r \<Rightarrow>
                                   Inr (rstrip (CHR ''.'') (rstrip (CHR ''0'')
                                     (format_f (precision_of (str_float step_size))
                                        (float_of_Decimal r)))))
                          | _ \<Rightarrow> Inl InvalidOperation)))))"

text \<open>
  \<^verbatim>\<open>format_quantity\<close>: any exception of the body is caught and the quantity's own string
  is returned. The one client call is the metadata lookup.
\<close>

definition format_quantity :: "client \<Rightarrow> string \<Rightarrow> pyfloat \<Rightarrow> string \<times> call list" where
  "format_quantity c smb quantity =
     (case format_quantity_try c smb quantity of
        Inl e \<Rightarrow> (str_float quantity, snd (get_symbol_info c smb))
      | Inr s \<Rightarrow> (s, snd (get_symbol_info c smb)))"

text \<open>
  \<^verbatim>\<open>format_quantity\<close> handed a string as its quantity, as it is when a formatted quantity
  is formatted again. The function reads its quantity only through \<^verbatim>\<open>str(quantity)\<close>
  (\<^verbatim>\<open>bot.py\<close> lines 86, 92 and 100), and \<^verbatim>\<open>str\<close> of a string is that string: the body
  is the one above with the string in the place of \<^verbatim>\<open>str(quantity)\<close>. A string that is not
  a number makes \<^verbatim>\<open>Decimal\<close> raise inside the \<^verbatim>\<open>try\<close>, and the string is returned.
\<close>

definition format_quantity_try_of_str :: "client \<Rightarrow> string \<Rightarrow> string \<Rightarrow> error + string" where
  "format_quantity_try_of_str c smb quantity_str =
     (case fst (get_symbol_info c smb) of
        Inl e \<Rightarrow> Inl e
      | Inr si \<Rightarrow>
          (case find (\<lambda>f. filterType f = ''LOT_SIZE'') (filters si) of
             None \<Rightarrow> Inr quantity_str
           | Some lot_size_filter \<Rightarrow>
               (case stepSize lot_size_filter of
                  None \<Rightarrow> Inl (KeyError ''stepSize'')
                | Some st \<Rightarrow>
                    (case float_of_str st of
                       Inl e \<Rightarrow> Inl e
                     | Inr step_size \<Rightarrow>
                         (case (Decimal_of_str quantity_str,
                                Decimal_of_str (str_float step_size)) of
                            (Some dq, Some ds) \<Rightarrow>
                              (case quantize_down dq ds of
                                 Inl e \<Rightarrow> Inl e
                               | Inr r \<Rightarrow>
                                   Inr (rstrip (CHR ''.'') (rstrip (CHR ''0'')
                                     (format_f (precision_of (str_float step_size))
                                        (float_of_Decimal r)))))
                          | _ \<Rightarrow> Inl InvalidOperation)))))"

definition format_quantity_of_str :: "client \<Rightarrow> string \<Rightarrow> string \<Rightarrow> string \<times> call list" where
  "format_quantity_of_str c smb quantity_str =
     (case format_quantity_try_of_str c smb quantity_str of
        Inl e \<Rightarrow> (quantity_str, snd (get_symbol_info c smb))
      | Inr s \<Rightarrow> (s, snd (get_symbol_info c smb)))"

text \<open>
  A minimal decimal string: not empty, no exponent marker, no point at the end, and no
  zero at the end of a fractional part.
\<close>

definition minimal_decimal :: "string \<Rightarrow> bool" where
  "minimal_decimal s =
     (s \<noteq> [] \<and> CHR ''e'' \<notin> set s \<and> CHR ''E'' \<notin> set s \<and> last s \<noteq> CHR ''.''
      \<and> (CHR ''.'' \<in> set s \<longrightarrow> last s \<noteq> CHR ''0''))"

subsection \<open>Order placement\<close>

definition apostrophe :: string where
  "apostrophe = [CHR 0x27]"

definition side_message :: string where
  "side_message = ''Side must be '' @ apostrophe @ ''BUY'' @ apostrophe @ '' or ''
                   @ apostrophe @ ''SELL'' @ apostrophe"

definition place_market_order ::
  "client \<Rightarrow> string \<Rightarrow> string \<Rightarrow> pyfloat \<Rightarrow> (error + order_response) \<times> call list" where
  "place_market_order c smb sd quantity =
     (let symbol' = upper smb; side' = upper sd
      in if side' \<notin> set [''BUY'', ''SELL''] then (Inl (ValueError side_message), [])
         else (case format_quantity c symbol' quantity of
                 (formatted_qty, calls) \<Rightarrow>
                   let req = \<lparr>req_symbol = symbol', req_side = side', req_type = ''MARKET'',
                              req_quantity = formatted_qty, req_price = None,
                              req_stopPrice = None, req_timeInForce = None\<rparr>
                   in (futures_create_order c req, calls @ [CreateOrder req])))"

text \<open>The parameter \<^verbatim>\<open>time_in_force\<close> has the default \<^verbatim>\<open>'GTC'\<close>: \<open>None\<close> is its omission.\<close>

definition time_in_force_arg :: "string option \<Rightarrow> string" where
  "time_in_force_arg t = (case t of None \<Rightarrow> ''GTC'' | Some v \<Rightarrow> v)"

definition place_limit_order ::
  "client \<Rightarrow> string \<Rightarrow> string \<Rightarrow> pyfloat \<Rightarrow> pyfloat \<Rightarrow> string option
     \<Rightarrow> (error + order_response) \<times> call list" where
  "place_limit_order c smb sd quantity price time_in_force =
     (let symbol' = upper smb; side' = upper sd
      in if side' \<notin> set [''BUY'', ''SELL''] then (Inl (ValueError side_message), [])
         else (case format_quantity c symbol' quantity of
                 (formatted_qty, calls) \<Rightarrow>
                   let req = \<lparr>req_symbol = symbol', req_side = side', req_type = ''LIMIT'',
                              req_quantity = formatted_qty,
                              req_price = Some (str_float price),
                              req_stopPrice = None,
                              req_timeInForce = Some (time_in_force_arg time_in_force)\<rparr>
                   in (futures_create_order c req, calls @ [CreateOrder req])))"

definition place_stop_limit_order ::
  "client \<Rightarrow> string \<Rightarrow> string \<Rightarrow> pyfloat \<Rightarrow> pyfloat \<Rightarrow> pyfloat \<Rightarrow> string option
     \<Rightarrow> (error + order_response) \<times> call list" where
  "place_stop_limit_order c smb sd quantity price stop_price time_in_force =
     (let symbol' = upper smb; side' = upper sd
      in (case format_quantity c symbol' quantity of
            (formatted_qty, calls) \<Rightarrow>
              let req = \<lparr>req_symbol = symbol', req_side = side', req_type = ''STOP'',
                         req_quantity = formatted_qty,
                         req_price = Some (str_float price),
                         req_stopPrice = Some (str_float stop_price),
                         req_timeInForce = Some (time_in_force_arg time_in_force)\<rparr>
              in (futures_create_order c req, calls @ [CreateOrder req])))"

subsection \<open>An exchange for concrete runs\<close>

text \<open>
  A client whose exchange lists one symbol, \<^verbatim>\<open>BTCUSDT\<close>, with a price filter and a lot-size
  filter of the given step size, and which accepts every order.
\<close>

definition example_client :: "string \<Rightarrow> client" where
  "example_client step =
     \<lparr>futures_exchange_info =
        Inr [\<lparr>symbol = ''BTCUSDT'',
              filters = [\<lparr>filterType = ''PRICE_FILTER'', stepSize = None\<rparr>,
                         \<lparr>filterType = ''LOT_SIZE'', stepSize = Some step\<rparr>]\<rparr>],
      futures_symbol_ticker = (\<lambda>_. Inr ''50000.5''),
      futures_create_order = (\<lambda>_. Inr \<lparr>orderId = 1\<rparr>),
      futures_cancel_order = (\<lambda>_ _. Inr \<lparr>orderId = 1\<rparr>),
      futures_get_open_orders = (\<lambda>_. Inr [])\<rparr>"

section \<open>Properties\<close>

subsection \<open>Client calls of the formatter\<close>

text \<open>Whatever happens inside it, the formatter makes exactly one client call.\<close>

lemma format_quantity_calls: "snd (format_quantity c smb q) = [ExchangeInfo]"
  by (simp add: format_quantity_def get_symbol_info_def split: sum.splits option.splits)

subsection \<open>Strings of digits\<close>

lemma digit_char_in_digit_chars:
  assumes "d < 10"
  shows "digit_char d \<in> set digit_chars"
proof -
  have "length digit_chars = 10" by (simp add: digit_chars_def)
  with assms have "d < length digit_chars" by simp
  then show ?thesis unfolding digit_char_def by (rule nth_mem)
qed

lemma digits_in_digit_chars: "set (digits n) \<subseteq> set digit_chars"
proof (induction n rule: digits.induct)
  case (1 n)
  show ?case
  proof (cases "n < 10")
    case True
    then show ?thesis
      using digit_char_in_digit_chars [of n] by (simp add: digits.simps [of n])
  next
    case False
    have "n mod 10 < 10" by simp
    then have "digit_char (n mod 10) \<in> set digit_chars"
      by (rule digit_char_in_digit_chars)
    with False "1.IH" show ?thesis
      by (simp add: digits.simps [of n])
  qed
qed

text \<open>Stripping from the right stops at the first character that is not stripped.\<close>

lemma dropWhile_stops: "\<not> P y \<Longrightarrow> dropWhile P (xs @ y # ys) = dropWhile P xs @ y # ys"
  by (induction xs) simp_all

lemma rstrip_stops: "y \<noteq> c \<Longrightarrow> rstrip c (xs @ y # ys) = xs @ y # rstrip c ys"
  using dropWhile_stops [of "\<lambda>x. x = c" y "rev ys" "rev xs"]
  by (simp add: rstrip_def)

lemma rstrip_keeps: "s \<noteq> [] \<Longrightarrow> last s \<noteq> c \<Longrightarrow> rstrip c s = s"
  using rstrip_stops [of "last s" c "butlast s" "[]"]
  by (simp add: rstrip_def)

lemma rstrip_last: "rstrip c s \<noteq> [] \<Longrightarrow> last (rstrip c s) \<noteq> c"
  using hd_dropWhile [of "\<lambda>x. x = c" "rev s"]
  by (simp add: rstrip_def last_rev)

lemma rstrip_subset: "set (rstrip c s) \<subseteq> set s"
  using set_dropWhileD [of _ "\<lambda>x. x = c" "rev s"]
  by (auto simp add: rstrip_def)

text \<open>
  A sign, digits, a point and digits: stripped of its zeros and then of its point, such
  a string is minimal. Either some fractional digits stay, the last of them not a zero,
  or the point goes with them and the integer digits stay as they are.
\<close>

lemma stripped_form_minimal:
  assumes ip: "ip \<noteq> []" "set ip \<subseteq> set digit_chars"
    and fp: "set fp \<subseteq> set digit_chars"
    and sg: "set sg \<subseteq> {CHR ''-''}"
  shows "minimal_decimal (rstrip (CHR ''.'') (rstrip (CHR ''0'') (sg @ ip @ CHR ''.'' # fp)))"
proof -
  define t where "t = rstrip (CHR ''0'') fp"
  have dc: "CHR ''.'' \<notin> set digit_chars" "CHR ''e'' \<notin> set digit_chars"
    "CHR ''E'' \<notin> set digit_chars"
    by (simp_all add: digit_chars_def)
  have first: "rstrip (CHR ''0'') (sg @ ip @ CHR ''.'' # fp) = sg @ ip @ CHR ''.'' # t"
    using rstrip_stops [of "CHR ''.''" "CHR ''0''" "sg @ ip" fp] by (simp add: t_def)
  have tsub: "set t \<subseteq> set digit_chars"
    using rstrip_subset [of "CHR ''0''" fp] fp unfolding t_def by blast
  have lip: "last ip \<in> set digit_chars"
    using ip last_in_set [of ip] by blast
  have no_e: "CHR ''e'' \<notin> set (sg @ ip)" "CHR ''E'' \<notin> set (sg @ ip)"
    "CHR ''.'' \<notin> set (sg @ ip)"
    using ip sg dc by auto
  show ?thesis
  proof (cases "t = []")
    case True
    have lne: "last ip \<noteq> CHR ''.''"
      using lip dc by auto
    have split: "sg @ ip @ [CHR ''.''] = (sg @ butlast ip) @ last ip # [CHR ''.'']"
      using ip by simp
    have stop: "rstrip (CHR ''.'') ((sg @ butlast ip) @ last ip # [CHR ''.''])
                  = (sg @ butlast ip) @ last ip # rstrip (CHR ''.'') [CHR ''.'']"
      using lne by (rule rstrip_stops)
    have dot: "rstrip (CHR ''.'') [CHR ''.''] = []"
      by (simp add: rstrip_def)
    have rejoin: "(sg @ butlast ip) @ last ip # [] = sg @ ip"
      using ip by simp
    have "rstrip (CHR ''.'') (sg @ ip @ [CHR ''.'']) = sg @ ip"
      by (simp only: split stop dot rejoin)
    with first True
    have res: "rstrip (CHR ''.'') (rstrip (CHR ''0'') (sg @ ip @ CHR ''.'' # fp)) = sg @ ip"
      by simp
    have "last (sg @ ip) \<noteq> CHR ''.''"
      using ip lne by simp
    with no_e ip show ?thesis
      unfolding res minimal_decimal_def by simp
  next
    case False
    have lt: "last t \<in> set digit_chars"
      using False tsub last_in_set [of t] by blast
    have l0: "last t \<noteq> CHR ''0''"
      using rstrip_last [of "CHR ''0''" fp] False unfolding t_def by simp
    have ld: "last t \<noteq> CHR ''.''"
      using lt dc by auto
    have "rstrip (CHR ''.'') (sg @ ip @ CHR ''.'' # t) = sg @ ip @ CHR ''.'' # t"
      using rstrip_keeps [of "sg @ ip @ CHR ''.'' # t" "CHR ''.''"] False ld by simp
    with first
    have res: "rstrip (CHR ''.'') (rstrip (CHR ''0'') (sg @ ip @ CHR ''.'' # fp))
                 = sg @ ip @ CHR ''.'' # t"
      by simp
    have "CHR ''e'' \<notin> set t" "CHR ''E'' \<notin> set t"
      using tsub dc by auto
    with no_e False l0 ld show ?thesis
      unfolding res minimal_decimal_def by simp
  qed
qed

text \<open>With a positive precision the format has that shape.\<close>

lemma format_f_minimal:
  assumes "0 < p"
  shows "minimal_decimal (rstrip (CHR ''.'') (rstrip (CHR ''0'') (format_f p x)))"
proof -
  define n where "n = (if 0 \<le> exponent x + int p then coefficient x * 10 ^ nat (exponent x + int p)
                       else round_half_even (coefficient x) (10 ^ nat (- (exponent x + int p))))"
  define padded where "padded = replicate (Suc p - length (digits n)) (CHR ''0'') @ digits n"
  define sg where "sg = (if negative x then ''-'' else [])"
  define k where "k = length padded - p"
  have fmt: "format_f p x = sg @ take k padded @ CHR ''.'' # drop k padded"
    using assms by (simp add: format_f_def Let_def n_def padded_def sg_def k_def)
  have zero: "CHR ''0'' \<in> set digit_chars"
    by (simp add: digit_chars_def)
  have psub: "set padded \<subseteq> set digit_chars"
    using digits_in_digit_chars [of n] zero by (auto simp add: padded_def)
  have "p < length padded"
    by (simp add: padded_def)
  then have "0 < k" "k \<le> length padded"
    by (simp_all add: k_def)
  then have ne: "take k padded \<noteq> []"
    by auto
  have s1: "set (take k padded) \<subseteq> set digit_chars"
    using psub set_take_subset [of k padded] by blast
  have s2: "set (drop k padded) \<subseteq> set digit_chars"
    using psub set_drop_subset [of k padded] by blast
  have s3: "set sg \<subseteq> {CHR ''-''}"
    by (cases "negative x") (simp_all add: sg_def)
  show ?thesis
    unfolding fmt using stripped_form_minimal [OF ne s1 s2 s3] .
qed

subsection \<open>Quantity formatting\<close>

text \<open>
  C1. The formatted quantity should be the quantity cut down to a multiple of the step
  size: with step size \<^verbatim>\<open>"1"\<close> and quantity \<^verbatim>\<open>5.9\<close> it should be \<^verbatim>\<open>"5"\<close>. The code turns
  the step size into a float and that float back into a string, \<^verbatim>\<open>"1.0"\<close>, whose exponent
  \<open>-1\<close> is what \<^verbatim>\<open>quantize\<close> rounds to: the result is \<^verbatim>\<open>"5.9"\<close>, not a multiple of the step.
\<close>

theorem format_quantity_step_one_keeps_fraction:
  "fst (format_quantity (example_client ''1'') ''BTCUSDT'' (Decimal False 59 (- 1))) = ''5.9''"
  by code_simp

text \<open>
  C3, as stated, fails: with step size \<^verbatim>\<open>0.001\<close>, the quantity \<open>10\<^sup>3\<^sup>0\<close> makes
  \<^verbatim>\<open>quantize\<close> raise, and the fallback returns the quantity's own string, which is in
  exponent notation.
\<close>

theorem format_quantity_fallback_exponent_notation:
  "fst (format_quantity (example_client ''0.001'') ''BTCUSDT'' (Decimal False 1 30)) = ''1e+30''
   \<and> \<not> minimal_decimal ''1e+30''"
  by code_simp

text \<open>
  C3, amended. Whenever the symbol has a lot-size filter, the precision computed from its
  step size is positive and the body raises nothing, the formatted quantity is a minimal
  decimal string: it is not empty, has no exponent marker, does not end in a point, and
  does not end in a zero after a point.
\<close>

theorem format_quantity_minimal_form:
  assumes "fst (get_symbol_info c smb) = Inr si"
    and "find (\<lambda>f. filterType f = ''LOT_SIZE'') (filters si) = Some lot_size_filter"
    and "stepSize lot_size_filter = Some st"
    and "float_of_str st = Inr step_size"
    and "0 < precision_of (str_float step_size)"
    and "format_quantity_try c smb q = Inr s"
  shows "fst (format_quantity c smb q) = s \<and> minimal_decimal s"
proof -
  have res: "fst (format_quantity c smb q) = s"
    using assms(6) by (simp add: format_quantity_def)
  obtain r where "s = rstrip (CHR ''.'') (rstrip (CHR ''0'')
                        (format_f (precision_of (str_float step_size)) (float_of_Decimal r)))"
    using assms by (auto simp add: format_quantity_try_def split: option.splits sum.splits)
  with format_f_minimal [OF assms(5)] res show ?thesis
    by simp
qed

text \<open>The run of the specification: step size \<^verbatim>\<open>0.001\<close>, quantity \<^verbatim>\<open>1.23456\<close>.\<close>

theorem format_quantity_minimal_form_witness:
  "fst (format_quantity (example_client ''0.001'') ''BTCUSDT'' (Decimal False 123456 (- 5)))
     = ''1.234''
   \<and> minimal_decimal ''1.234''"
proof -
  let ?c = "example_client ''0.001''"
  let ?lf = "\<lparr>filterType = ''LOT_SIZE'', stepSize = Some ''0.001''\<rparr>"
  let ?si = "\<lparr>symbol = ''BTCUSDT'',
               filters = [\<lparr>filterType = ''PRICE_FILTER'', stepSize = None\<rparr>, ?lf]\<rparr>"
  have a1: "fst (get_symbol_info ?c ''BTCUSDT'') = Inr ?si" by code_simp
  have a2: "find (\<lambda>f. filterType f = ''LOT_SIZE'') (filters ?si) = Some ?lf" by code_simp
  have a3: "stepSize ?lf = Some ''0.001''" by simp
  have a4: "float_of_str ''0.001'' = Inr (Decimal False 1 (- 3))" by code_simp
  have a5: "0 < precision_of (str_float (Decimal False 1 (- 3)))" by code_simp
  have a6: "format_quantity_try ?c ''BTCUSDT'' (Decimal False 123456 (- 5)) = Inr ''1.234''"
    by code_simp
  show ?thesis
    using format_quantity_minimal_form [OF a1 a2 a3 a4 a5 a6] by blast
qed

text \<open>
  C6. When the body of the formatter raises, in the metadata lookup or in the arithmetic,
  the formatter returns the string of the original quantity and raises nothing.
\<close>

theorem format_quantity_falls_back:
  "format_quantity_try c smb q = Inl e \<Longrightarrow> format_quantity c smb q = (str_float q, [ExchangeInfo])"
  by (simp add: format_quantity_def get_symbol_info_def split: sum.splits option.splits)

text \<open>
  Two runs of the fallback: an unknown symbol (the lookup raises) and a quantity of
  \<open>10\<^sup>3\<^sup>0\<close>, whose quantized form exceeds 28 digits (the arithmetic raises).
\<close>

theorem format_quantity_falls_back_witness:
  "format_quantity (example_client ''0.001'') ''ETHUSDT'' (Decimal False 59 (- 1)) = (''5.9'', [ExchangeInfo])
   \<and> format_quantity (example_client ''0.001'') ''BTCUSDT'' (Decimal False 1 30) = (''1e+30'', [ExchangeInfo])"
proof -
  have lookup: "format_quantity_try (example_client ''0.001'') ''ETHUSDT'' (Decimal False 59 (- 1))
                  = Inl (ValueError ''Symbol ETHUSDT not found'')"
    by code_simp
  have arith: "format_quantity_try (example_client ''0.001'') ''BTCUSDT'' (Decimal False 1 30)
                  = Inl InvalidOperation"
    by code_simp
  have s1: "str_float (Decimal False 59 (- 1)) = ''5.9''" by code_simp
  have s2: "str_float (Decimal False 1 30) = ''1e+30''" by code_simp
  show ?thesis
    using format_quantity_falls_back [OF lookup] format_quantity_falls_back [OF arith]
    unfolding s1 s2 by blast
qed

text \<open>
  Formatting a float is formatting its string: the two forms of the formatter agree.
\<close>

lemma format_quantity_as_of_str:
  "format_quantity c smb q = format_quantity_of_str c smb (str_float q)"
  by (simp add: format_quantity_def format_quantity_of_str_def format_quantity_try_def
      format_quantity_try_of_str_def)

text \<open>
  C9. Formatting twice should give what formatting once gives. With the step size
  \<open>10\<^sup>1\<^sup>6\<close>, whose float prints as \<^verbatim>\<open>1e+16\<close>, the computed precision is 0. The quantity
  \<open>3 * 10\<^sup>1\<^sup>6\<close> is a multiple of the step; it is printed as \<^verbatim>\<open>30000000000000000\<close> and
  stripped of its zeros to \<^verbatim>\<open>"3"\<close>. Formatted again, \<^verbatim>\<open>"3"\<close> is cut down to zero, printed
  as \<^verbatim>\<open>"0"\<close> and stripped to the empty string.
\<close>

theorem format_quantity_not_idempotent:
  "fst (format_quantity (example_client ''10000000000000000'') ''BTCUSDT'' (Decimal False 3 16))
     = ''3''
   \<and> fst (format_quantity_of_str (example_client ''10000000000000000'') ''BTCUSDT'' ''3'') = []"
  by code_simp

subsection \<open>Validation of the side\<close>

text \<open>
  C2. A side other than BUY or SELL should fail before any client call, for every order
  kind. The market order does so; the stop-limit order has no such check and submits a
  request with the side \<^verbatim>\<open>HOLD\<close>.
\<close>

theorem stop_limit_order_submits_invalid_side:
  "place_market_order (example_client ''0.001'') ''BTCUSDT'' ''hold'' (Decimal False 1 0)
     = (Inl (ValueError side_message), [])
   \<and> place_stop_limit_order (example_client ''0.001'') ''BTCUSDT'' ''hold'' (Decimal False 1 0)
       (Decimal False 50000 0) (Decimal False 49000 0) None
     = (Inr \<lparr>orderId = 1\<rparr>,
        [ExchangeInfo,
         CreateOrder \<lparr>req_symbol = ''BTCUSDT'', req_side = ''HOLD'', req_type = ''STOP'',
                      req_quantity = ''1'', req_price = Some ''50000.0'',
                      req_stopPrice = Some ''49000.0'', req_timeInForce = Some ''GTC''\<rparr>])"
  by code_simp

subsection \<open>Time in force\<close>

text \<open>
  C4, as stated, fails: a limit order with the time in force \<^verbatim>\<open>XYZ\<close> is not rejected,
  it is submitted with that value.
\<close>

theorem limit_order_accepts_unknown_time_in_force:
  "place_limit_order (example_client ''0.001'') ''BTCUSDT'' ''BUY'' (Decimal False 1 0)
     (Decimal False 50000 0) (Some ''XYZ'')
     = (Inr \<lparr>orderId = 1\<rparr>,
        [ExchangeInfo,
         CreateOrder \<lparr>req_symbol = ''BTCUSDT'', req_side = ''BUY'', req_type = ''LIMIT'',
                      req_quantity = ''1'', req_price = Some ''50000.0'',
                      req_stopPrice = None, req_timeInForce = Some ''XYZ''\<rparr>])"
  by code_simp

text \<open>
  C4, amended. For every limit order with a valid side, the request carries the time in
  force \<^verbatim>\<open>GTC\<close> when none is given, and the given value, unchecked, otherwise.
\<close>

theorem limit_order_time_in_force_passed_through:
  "upper sd \<in> set [''BUY'', ''SELL''] \<Longrightarrow>
   \<exists>r. snd (place_limit_order c smb sd q p t) = [ExchangeInfo, CreateOrder r]
       \<and> req_timeInForce r = Some (case t of None \<Rightarrow> ''GTC'' | Some v \<Rightarrow> v)"
  using format_quantity_calls [of c "upper smb" q]
  by (cases "format_quantity c (upper smb) q")
     (simp add: place_limit_order_def Let_def time_in_force_arg_def)

text \<open>A limit order without a time in force.\<close>

theorem limit_order_time_in_force_passed_through_witness:
  "upper ''buy'' \<in> set [''BUY'', ''SELL'']
   \<and> (\<exists>r. snd (place_limit_order (example_client ''0.001'') ''BTCUSDT'' ''buy'' (Decimal False 1 0)
                  (Decimal False 50000 0) None) = [ExchangeInfo, CreateOrder r]
          \<and> req_timeInForce r = Some ''GTC'')"
proof -
  have h: "upper ''buy'' \<in> set [''BUY'', ''SELL'']" by code_simp
  show ?thesis
    using h limit_order_time_in_force_passed_through [OF h, of "example_client ''0.001''"
        "''BTCUSDT''" "Decimal False 1 0" "Decimal False 50000 0" None]
    by simp
qed

subsection \<open>Stop-limit requests\<close>

text \<open>
  C5, as stated, fails: a stop-limit order with the limit price \<open>0\<close> and the stop price
  \<open>-1\<close> is submitted.
\<close>

theorem stop_limit_order_accepts_nonpositive_prices:
  "place_stop_limit_order (example_client ''0.001'') ''BTCUSDT'' ''SELL'' (Decimal False 1 0)
     (Decimal False 0 0) (Decimal True 1 0) None
     = (Inr \<lparr>orderId = 1\<rparr>,
        [ExchangeInfo,
         CreateOrder \<lparr>req_symbol = ''BTCUSDT'', req_side = ''SELL'', req_type = ''STOP'',
                      req_quantity = ''1'', req_price = Some ''0.0'',
                      req_stopPrice = Some ''-1.0'', req_timeInForce = Some ''GTC''\<rparr>])"
  by code_simp

text \<open>
  C5, amended. Every stop-limit order issues one request, which carries the strings of
  the given price and stop price and the type \<^verbatim>\<open>STOP\<close>, distinct from \<^verbatim>\<open>LIMIT\<close>. Both
  prices are parameters of the function, so neither can be left out; their sign is not
  checked.
\<close>

theorem stop_limit_request_carries_both_prices:
  "\<exists>r. snd (place_stop_limit_order c smb sd q p sp t) = [ExchangeInfo, CreateOrder r]
       \<and> req_price r = Some (str_float p) \<and> req_stopPrice r = Some (str_float sp)
       \<and> req_type r = ''STOP'' \<and> req_type r \<noteq> ''LIMIT''"
  using format_quantity_calls [of c "upper smb" q]
  by (cases "format_quantity c (upper smb) q") (simp add: place_stop_limit_order_def Let_def)

subsection \<open>The symbol\<close>

text \<open>
  C7, as stated, fails: a market order for the empty symbol is not rejected. The lookup
  is made, the formatter falls back, and the order is submitted with the empty symbol.
\<close>

theorem market_order_submits_empty_symbol:
  "place_market_order (example_client ''0.001'') [] ''BUY'' (Decimal False 1 0)
     = (Inr \<lparr>orderId = 1\<rparr>,
        [ExchangeInfo,
         CreateOrder \<lparr>req_symbol = [], req_side = ''BUY'', req_type = ''MARKET'',
                      req_quantity = ''1.0'', req_price = None,
                      req_stopPrice = None, req_timeInForce = None\<rparr>])"
  by code_simp

text \<open>
  C7, amended. For every symbol, the empty one included, an order is looked up and
  submitted under the symbol in upper case: a market or limit order with a valid side,
  and every stop-limit order, makes the metadata lookup and then issues one request,
  whose symbol is the given one in upper case and whose quantity was formatted for that
  upper-case symbol. No symbol is rejected before the client is called.
\<close>

theorem order_symbol_uppercased:
  "(upper sd \<in> set [''BUY'', ''SELL'']
      \<longrightarrow> (\<exists>r. place_market_order c smb sd q
                   = (futures_create_order c r, [ExchangeInfo, CreateOrder r])
                 \<and> req_symbol r = upper smb
                 \<and> req_quantity r = fst (format_quantity c (upper smb) q))
        \<and> (\<exists>r. place_limit_order c smb sd q p t
                   = (futures_create_order c r, [ExchangeInfo, CreateOrder r])
                 \<and> req_symbol r = upper smb
                 \<and> req_quantity r = fst (format_quantity c (upper smb) q)))
   \<and> (\<exists>r. place_stop_limit_order c smb sd q p sp t
              = (futures_create_order c r, [ExchangeInfo, CreateOrder r])
            \<and> req_symbol r = upper smb
            \<and> req_quantity r = fst (format_quantity c (upper smb) q))"
  using format_quantity_calls [of c "upper smb" q]
  by (cases "format_quantity c (upper smb) q")
     (simp add: place_market_order_def place_limit_order_def place_stop_limit_order_def
        Let_def)

text \<open>A market order and a stop-limit order for the empty symbol.\<close>

theorem order_symbol_uppercased_witness:
  "upper ''BUY'' \<in> set [''BUY'', ''SELL'']
   \<and> (\<exists>r. place_market_order (example_client ''0.001'') [] ''BUY'' (Decimal False 1 0)
              = (Inr \<lparr>orderId = 1\<rparr>, [ExchangeInfo, CreateOrder r])
            \<and> req_symbol r = [])
   \<and> (\<exists>r. place_stop_limit_order (example_client ''0.001'') [] ''BUY'' (Decimal False 1 0)
                (Decimal False 50000 0) (Decimal False 49000 0) None
              = (Inr \<lparr>orderId = 1\<rparr>, [ExchangeInfo, CreateOrder r])
            \<and> req_symbol r = [])"
proof -
  have h: "upper ''BUY'' \<in> set [''BUY'', ''SELL'']" by code_simp
  have u: "upper [] = []" by (simp add: upper_def)
  have a: "futures_create_order (example_client ''0.001'') r = Inr \<lparr>orderId = 1\<rparr>" for r
    by (simp add: example_client_def)
  show ?thesis
    using h order_symbol_uppercased [where c = "example_client ''0.001''" and smb = "[]"
        and sd = "''BUY''" and q = "Decimal False 1 0" and p = "Decimal False 50000 0"
        and sp = "Decimal False 49000 0" and t = None]
    unfolding u a by blast
qed

subsection \<open>The quantity\<close>

text \<open>
  C8, as stated, fails: with step size \<^verbatim>\<open>0.001\<close>, a market order for the quantity \<open>0\<close> and
  one for \<open>0.0001\<close>, below one step, are both submitted with the quantity \<^verbatim>\<open>"0"\<close>.
\<close>

theorem market_order_submits_zero_quantity:
  "place_market_order (example_client ''0.001'') ''BTCUSDT'' ''BUY'' (Decimal False 0 0)
     = (Inr \<lparr>orderId = 1\<rparr>,
        [ExchangeInfo,
         CreateOrder \<lparr>req_symbol = ''BTCUSDT'', req_side = ''BUY'', req_type = ''MARKET'',
                      req_quantity = ''0'', req_price = None,
                      req_stopPrice = None, req_timeInForce = None\<rparr>])
   \<and> place_market_order (example_client ''0.001'') ''BTCUSDT'' ''BUY'' (Decimal False 1 (- 4))
     = (Inr \<lparr>orderId = 1\<rparr>,
        [ExchangeInfo,
         CreateOrder \<lparr>req_symbol = ''BTCUSDT'', req_side = ''BUY'', req_type = ''MARKET'',
                      req_quantity = ''0'', req_price = None,
                      req_stopPrice = None, req_timeInForce = None\<rparr>])"
  by code_simp

text \<open>
  C8, amended. An order with a valid side is submitted whatever its quantity: the one
  request carries the formatted quantity, be it zero or negative.
\<close>

theorem order_quantity_not_checked:
  "upper sd \<in> set [''BUY'', ''SELL''] \<Longrightarrow>
   (\<exists>r. snd (place_market_order c smb sd q) = [ExchangeInfo, CreateOrder r]
        \<and> req_quantity r = fst (format_quantity c (upper smb) q))
   \<and> (\<exists>r. snd (place_limit_order c smb sd q p t) = [ExchangeInfo, CreateOrder r]
        \<and> req_quantity r = fst (format_quantity c (upper smb) q))
   \<and> (\<exists>r. snd (place_stop_limit_order c smb sd q p sp t) = [ExchangeInfo, CreateOrder r]
        \<and> req_quantity r = fst (format_quantity c (upper smb) q))"
  using format_quantity_calls [of c "upper smb" q]
  by (cases "format_quantity c (upper smb) q")
     (simp add: place_market_order_def place_limit_order_def place_stop_limit_order_def
        Let_def)

text \<open>A market order for the quantity \<open>-0.5\<close>.\<close>

theorem order_quantity_not_checked_witness:
  "upper ''sell'' \<in> set [''BUY'', ''SELL'']
   \<and> (\<exists>r. snd (place_market_order (example_client ''0.001'') ''BTCUSDT'' ''sell''
                  (Decimal True 5 (- 1))) = [ExchangeInfo, CreateOrder r]
          \<and> req_quantity r = ''-0.5'')"
proof -
  have h: "upper ''sell'' \<in> set [''BUY'', ''SELL'']" by code_simp
  have u: "upper ''BTCUSDT'' = ''BTCUSDT''" by code_simp
  have f: "fst (format_quantity (example_client ''0.001'') ''BTCUSDT'' (Decimal True 5 (- 1)))
             = ''-0.5''"
    by code_simp
  show ?thesis
    using h order_quantity_not_checked [OF h, where c = "example_client ''0.001''"
        and smb = "''BTCUSDT''" and q = "Decimal True 5 (- 1)"]
    unfolding u f by blast
qed

subsection \<open>Queries\<close>

text \<open>
  The price query and the cancellation hand the symbol to the client in upper case, as
  the metadata lookup and the three order functions do.
\<close>

lemma sibling_queries_uppercase_symbol:
  "snd (get_current_price c smb) = [SymbolTicker (upper smb)]
   \<and> snd (cancel_order c smb order_id) = [CancelOrder (upper smb) order_id]"
  by (simp add: get_current_price_def cancel_order_def split: sum.splits)

text \<open>
  C10. Every query should hand the symbol to the client in upper case. The price query
  does; the open-orders query hands the symbol \<^verbatim>\<open>btcusdt\<close> to the client as it is.
\<close>

theorem open_orders_symbol_not_uppercased:
  "snd (get_current_price (example_client ''0.001'') ''btcusdt'') = [SymbolTicker ''BTCUSDT'']
   \<and> get_open_orders (example_client ''0.001'') (Some ''btcusdt'')
       = (Inr [], [GetOpenOrders (Some ''btcusdt'')])
   \<and> upper ''btcusdt'' = ''BTCUSDT''"
  by code_simp

end
